theory Spec2Isabelle
  imports Main
begin

section \<open>Values and errors\<close>

text \<open>
  The application is a FastAPI service over one \<open>users\<close> table. Python values that reach
  a payload dictionary or a column are modelled by \<open>py_value\<close>; points in time are counted in
  microseconds since the epoch, the resolution of \<open>datetime\<close>.
  Every exception the code can raise is a value of \<open>error\<close>; a function that may raise returns
  \<open>error + 'a\<close>, with \<open>Inl\<close> for the raised exception.
\<close>

datatype py_value = PyNone | PyBool bool | PyInt int | PyStr string | PyDateTime int

datatype error =
    HTTPException nat string
  | TypeError
  | ValueError
  | UnknownHashError
  | OverflowError
  | UnicodeEncodeError
  | JOSEError
  | JWTError
  | ExpiredSignatureError
  | JWTClaimsError
  | IntegrityError
  | DataError
  | StatementError
  | StaleDataError
  | InvalidRequestError
  | ResponseValidationError

definition bind_err :: "error + 'a \<Rightarrow> ('a \<Rightarrow> error + 'b) \<Rightarrow> error + 'b" where
  "bind_err r f = (case r of Inl e \<Rightarrow> Inl e | Inr x \<Rightarrow> f x)"

text \<open>The value of a decimal digit, and the two-digit rendering \<open>'%02d'\<close> of a number
  below 100.\<close>

definition digit_of :: "char \<Rightarrow> nat option" where
  "digit_of c =
     (let n = (of_char c :: nat) in if 48 \<le> n \<and> n \<le> 57 then Some (n - 48) else None)"

definition two_digits :: "nat \<Rightarrow> string" where
  "two_digits n = [''0123456789'' ! (n div 10), ''0123456789'' ! (n mod 10)]"

section \<open>Password hashing (app/core/security.py)\<close>

text \<open>
  \<open>pwd_context = CryptContext(schemes=["bcrypt"], deprecated="auto")\<close> belongs to passlib,
  which is not part of the repository. A context is therefore a parameter: the scheme's
  recogniser of hash strings, its verification of a secret against a recognised hash, and
  its hashing of a secret under a salt. The two entry points follow passlib's documented
  contract: \<open>verify\<close> raises \<open>UnknownHashError\<close> (a \<open>ValueError\<close>) for every hash string
  that no configured scheme identifies, the empty string included, and \<open>hash\<close> raises
  \<open>TypeError\<close> for a secret that is not a string.
\<close>

record crypt_context =
  identify :: "string \<Rightarrow> bool"
  handler_verify :: "string \<Rightarrow> string \<Rightarrow> error + bool"
  handler_hash :: "string \<Rightarrow> string \<Rightarrow> error + string"

definition CryptContext_verify :: "crypt_context \<Rightarrow> string \<Rightarrow> string \<Rightarrow> error + bool" where
  "CryptContext_verify ctx secret hash =
     (if identify ctx hash then handler_verify ctx secret hash else Inl UnknownHashError)"

definition CryptContext_hash :: "crypt_context \<Rightarrow> string \<Rightarrow> py_value \<Rightarrow> error + string" where
  "CryptContext_hash ctx salt secret =
     (case secret of PyStr s \<Rightarrow> handler_hash ctx salt s | _ \<Rightarrow> Inl TypeError)"

text \<open>\<open>verify_password\<close> and \<open>get_password_hash\<close> hand their arguments to the context and
  return its answer; neither has a handler for what the context raises.\<close>

definition verify_password :: "crypt_context \<Rightarrow> string \<Rightarrow> string \<Rightarrow> error + bool" where
  "verify_password pwd_context plain_password hashed_password =
     CryptContext_verify pwd_context plain_password hashed_password"

definition get_password_hash :: "crypt_context \<Rightarrow> string \<Rightarrow> py_value \<Rightarrow> error + string" where
  "get_password_hash pwd_context salt password = CryptContext_hash pwd_context salt password"

text \<open>
  The bcrypt scheme identifies a hash string by its prefix. \<open>sample_context\<close> is an
  instance of the parameter with that recogniser and a transparent digest (the prefix, the
  salt, a separator and the secret); it serves to run the definitions on concrete inputs.
  The theorems below hold for every context, except those that name this one.
\<close>

definition bcrypt_identify :: "string \<Rightarrow> bool" where
  "bcrypt_identify hash =
     list_ex (\<lambda>ident. take (length ident) hash = ident)
       [''$2$'', ''$2a$'', ''$2x$'', ''$2y$'', ''$2b$'']"

definition sample_hash :: "string \<Rightarrow> string \<Rightarrow> error + string" where
  "sample_hash salt secret = Inr (''$2b$'' @ salt @ ''$'' @ secret)"

definition sample_verify :: "string \<Rightarrow> string \<Rightarrow> error + bool" where
  "sample_verify secret hash =
     (let body = drop 4 hash;
          digest = dropWhile (\<lambda>c. c \<noteq> CHR ''$'') body
      in if digest = [] then Inl ValueError else Inr (tl digest = secret))"

definition sample_context :: crypt_context where
  "sample_context =
     \<lparr>identify = bcrypt_identify, handler_verify = sample_verify, handler_hash = sample_hash\<rparr>"

text \<open>
  The bcrypt handler itself, as far as the kind of its answer goes. It reads the hash
  string as an ident, a cost, \<open>$\<close>, 22 characters of salt and 31 of digest: the cost
  must be the two-digit rendering of a number from 4 to 31, salt and digest must be of
  bcrypt's base-64 alphabet, and the ident \<open>$2x$\<close> is not supported. A hash string that
  is not of this form, a secret of more than 4096 bytes in UTF-8 and a secret that
  contains NUL are refused with \<open>ValueError\<close> (which stands for its subclasses too, the
  one named above apart). Otherwise the answer is a boolean: \<open>check\<close>, the outcome of the
  Blowfish computation, is a parameter. The characters of a string are code points below
  256, of which those from 128 take two bytes.
\<close>

definition utf8_length :: "string \<Rightarrow> nat" where
  "utf8_length s = length s + length (filter (\<lambda>c. 128 \<le> (of_char c :: nat)) s)"

definition bcrypt64_chars :: string where
  "bcrypt64_chars = ''./ABCDEFGHIJKLMNOPQRSTUVWXYZabcdefghijklmnopqrstuvwxyz0123456789''"

definition parse_ident :: "string \<Rightarrow> (string \<times> string) option" where
  "parse_ident hash =
     (case find (\<lambda>ident. take (length ident) hash = ident)
             [''$2$'', ''$2a$'', ''$2x$'', ''$2y$'', ''$2b$''] of
        None \<Rightarrow> None
      | Some ident \<Rightarrow> Some (ident, drop (length ident) hash))"

definition cost_field :: "string \<Rightarrow> nat option" where
  "cost_field rounds_str =
     (case map digit_of rounds_str of
        [Some x, Some y] \<Rightarrow>
          if 4 \<le> 10 * x + y \<and> 10 * x + y \<le> 31 then Some (10 * x + y) else None
      | _ \<Rightarrow> None)"

definition bcrypt_from_string :: "string \<Rightarrow> (string \<times> nat \<times> string \<times> string) option" where
  "bcrypt_from_string hash =
     (case parse_ident hash of
        None \<Rightarrow> None
      | Some (ident, tail) \<Rightarrow>
          if ident = ''$2x$'' then None
          else
            let rounds_str = takeWhile (\<lambda>c. c \<noteq> CHR ''$'') tail;
                rest = dropWhile (\<lambda>c. c \<noteq> CHR ''$'') tail
            in if rest = [] \<or> CHR ''$'' \<in> set (tl rest) then None
               else (case cost_field rounds_str of
                       None \<Rightarrow> None
                     | Some rounds \<Rightarrow>
                         let salt = take 22 (tl rest);
                             chk = drop 22 (tl rest)
                         in if length salt = 22 \<and> length chk = 31
                               \<and> list_all (\<lambda>c. c \<in> set bcrypt64_chars) (salt @ chk)
                            then Some (ident, rounds, salt, chk)
                            else None))"

definition bcrypt_verify :: "(string \<Rightarrow> string \<Rightarrow> bool) \<Rightarrow> string \<Rightarrow> string \<Rightarrow> error + bool" where
  "bcrypt_verify check secret hash =
     (if 4096 < utf8_length secret \<or> CHR 0x00 \<in> set secret then Inl ValueError
      else (case bcrypt_from_string hash of
              None \<Rightarrow> Inl ValueError
            | Some _ \<Rightarrow> Inr (check secret hash)))"

section \<open>Access tokens (app/core/security.py)\<close>

record settings =
  SECRET_KEY :: string
  ALGORITHM :: string
  ACCESS_TOKEN_EXPIRE_MINUTES :: int

subsection \<open>Dates and durations\<close>

text \<open>
  \<open>datetime\<close> covers the years 1 to 9999 and \<open>timedelta\<close> at most 999999999 days either
  way; arithmetic that leaves the range raises \<open>OverflowError\<close>.
\<close>

definition datetime_min :: int where
  "datetime_min = - 62135596800000000"

definition datetime_max :: int where
  "datetime_max = 253402300799999999"

definition timedelta_min :: int where
  "timedelta_min = - 86399999913600000000"

definition timedelta_max :: int where
  "timedelta_max = 86399999999999999999"

definition datetime_add :: "int \<Rightarrow> int \<Rightarrow> error + int" where
  "datetime_add t delta =
     (if datetime_min \<le> t + delta \<and> t + delta \<le> datetime_max then Inr (t + delta)
      else Inl OverflowError)"

definition timedelta_minutes :: "int \<Rightarrow> error + int" where
  "timedelta_minutes m =
     (if timedelta_min \<le> m * 60000000 \<and> m * 60000000 \<le> timedelta_max then Inr (m * 60000000)
      else Inl OverflowError)"

definition timegm :: "int \<Rightarrow> int" where
  "timegm t = t div 1000000"

subsection \<open>The JWT library\<close>

text \<open>
  python-jose is not part of the repository either. Its compact tokens are modelled
  symbolically, in the manner of protocol verification: a string is either not a JWS at all
  (fewer than three segments, a header that does not decode to a JSON object naming an
  algorithm), or it carries the header's algorithm, a payload and a signature. A payload is
  a JSON object, given by its members in order, or anything else. A signature is the MAC of
  the header and payload under a key, or other bytes. The library is modelled for the HMAC
  family, whose key is a passphrase such as \<open>SECRET_KEY\<close>; any other algorithm name makes key
  construction fail, on encoding and on decoding alike.
  A string with a lone surrogate cannot be encoded as UTF-8 at all; the library encodes
  the token before it looks at it, outside any handler.
  \<open>jwt.decode\<close> reports a token it refuses with \<open>JWTError\<close> or one of its subclasses
  \<open>ExpiredSignatureError\<close> and \<open>JWTClaimsError\<close>; what the conversions inside it raise
  besides is described with the claims below.
\<close>

text \<open>A JSON number with a fraction or an exponent is a float: \<open>Finite m e\<close> stands for
  \<open>m\<close> times two to the power \<open>e\<close>.\<close>

datatype py_float = Finite int int | NaN | Infinity bool

datatype json =
    JNull | JBool bool | JInt int | JFloat py_float | JStr string
  | JArray "json list" | JObject "(string \<times> json) list"

datatype payload = Claims "(string \<times> json) list" | NotAnObject string

datatype signature = Mac string string payload | OtherSignature string

datatype token = Jws string payload signature | NotJws string | NotEncodable

definition HMAC_ALGORITHMS :: "string list" where
  "HMAC_ALGORITHMS = [''HS256'', ''HS384'', ''HS512'']"

fun is_JWTError :: "error \<Rightarrow> bool" where
  "is_JWTError JWTError = True"
| "is_JWTError ExpiredSignatureError = True"
| "is_JWTError JWTClaimsError = True"
| "is_JWTError _ = False"

text \<open>Encoding turns a \<open>datetime\<close> under \<open>exp\<close>, \<open>iat\<close> or \<open>nbf\<close> into whole seconds; a
  \<open>datetime\<close> anywhere else is not JSON serialisable.\<close>

fun json_claim :: "string \<times> py_value \<Rightarrow> error + (string \<times> json)" where
  "json_claim (k, PyDateTime t) =
     (if k \<in> set [''exp'', ''iat'', ''nbf''] then Inr (k, JInt (timegm t)) else Inl TypeError)"
| "json_claim (k, PyNone) = Inr (k, JNull)"
| "json_claim (k, PyBool b) = Inr (k, JBool b)"
| "json_claim (k, PyInt n) = Inr (k, JInt n)"
| "json_claim (k, PyStr s) = Inr (k, JStr s)"

fun json_claims :: "(string \<times> py_value) list \<Rightarrow> error + (string \<times> json) list" where
  "json_claims [] = Inr []"
| "json_claims (c # cs) =
     bind_err (json_claim c) (\<lambda>m. bind_err (json_claims cs) (\<lambda>ms. Inr (m # ms)))"

definition jwt_encode :: "(string \<times> py_value) list \<Rightarrow> string \<Rightarrow> string \<Rightarrow> error + token" where
  "jwt_encode claims key algorithm =
     bind_err (json_claims claims) (\<lambda>members.
       if algorithm \<in> set HMAC_ALGORITHMS
       then Inr (Jws algorithm (Claims members) (Mac algorithm key (Claims members)))
       else Inl JOSEError)"

text \<open>\<open>json.loads\<close> keeps the last of two members with one name.\<close>

definition loads :: "(string \<times> json) list \<Rightarrow> (string \<rightharpoonup> json)" where
  "loads members = map_of (rev members)"

text \<open>
  Python's \<open>int(x)\<close> on a decoded JSON value: an integer is itself, a boolean is 0 or 1, a
  float is truncated towards zero (not-a-number is a \<open>ValueError\<close>, an infinity an
  \<open>OverflowError\<close>), a string is read as a decimal literal (surrounding white space, a
  sign, digits with single underscores between them) or is a \<open>ValueError\<close>, and null, an
  array or an object is a \<open>TypeError\<close>.
\<close>

definition is_space :: "char \<Rightarrow> bool" where
  "is_space c =
     (c \<in> set [CHR '' '', CHR 0x09, CHR 0x0A, CHR 0x0B, CHR 0x0C, CHR 0x0D,
               CHR 0x1C, CHR 0x1D, CHR 0x1E, CHR 0x1F, CHR 0x85, CHR 0xA0])"

fun digit_run :: "nat \<Rightarrow> string \<Rightarrow> nat option" where
  "digit_run acc [] = Some acc"
| "digit_run acc [c] = map_option (\<lambda>d. 10 * acc + d) (digit_of c)"
| "digit_run acc (c # d # cs) =
     (if c = CHR ''_''
      then (case digit_of d of None \<Rightarrow> None | Some v \<Rightarrow> digit_run (10 * acc + v) cs)
      else (case digit_of c of None \<Rightarrow> None | Some v \<Rightarrow> digit_run (10 * acc + v) (d # cs)))"

definition unsigned_literal :: "string \<Rightarrow> nat option" where
  "unsigned_literal s =
     (case s of
        [] \<Rightarrow> None
      | c # cs \<Rightarrow> (case digit_of c of None \<Rightarrow> None | Some v \<Rightarrow> digit_run v cs))"

definition int_literal :: "string \<Rightarrow> int option" where
  "int_literal s =
     (case rev (dropWhile is_space (rev (dropWhile is_space s))) of
        [] \<Rightarrow> None
      | c # cs \<Rightarrow>
          if c = CHR ''-'' then map_option (\<lambda>n. - int n) (unsigned_literal cs)
          else if c = CHR ''+'' then map_option int (unsigned_literal cs)
          else map_option int (unsigned_literal (c # cs)))"

fun py_int :: "json \<Rightarrow> error + int" where
  "py_int (JInt n) = Inr n"
| "py_int (JBool b) = Inr (if b then 1 else 0)"
| "py_int (JFloat (Finite m e)) =
     Inr (if 0 \<le> e then m * 2 ^ nat e else sgn m * (\<bar>m\<bar> div 2 ^ nat (- e)))"
| "py_int (JFloat NaN) = Inl ValueError"
| "py_int (JFloat (Infinity _)) = Inl OverflowError"
| "py_int (JStr s) = (case int_literal s of None \<Rightarrow> Inl ValueError | Some n \<Rightarrow> Inr n)"
| "py_int JNull = Inl TypeError"
| "py_int (JArray _) = Inl TypeError"
| "py_int (JObject _) = Inl TypeError"

text \<open>
  The registered claims are checked in the library's order. \<open>iat\<close>, \<open>nbf\<close> and \<open>exp\<close> are
  converted with \<open>int\<close> under \<open>except ValueError\<close>, which becomes \<open>JWTClaimsError\<close>; any
  other exception of the conversion leaves \<open>jwt.decode\<close> as it is. No audience, issuer,
  subject or access token is passed by this application, so an \<open>aud\<close> or \<open>at_hash\<close> claim
  can never match.
\<close>

definition claim_int :: "json \<Rightarrow> error + int" where
  "claim_int v = (case py_int v of Inl ValueError \<Rightarrow> Inl JWTClaimsError | r \<Rightarrow> r)"

fun is_str :: "json \<Rightarrow> bool" where
  "is_str (JStr _) = True"
| "is_str _ = False"

definition validate_iat :: "(string \<rightharpoonup> json) \<Rightarrow> error + unit" where
  "validate_iat claims =
     (case claims ''iat'' of
        None \<Rightarrow> Inr ()
      | Some v \<Rightarrow> bind_err (claim_int v) (\<lambda>_. Inr ()))"

definition validate_nbf :: "int \<Rightarrow> (string \<rightharpoonup> json) \<Rightarrow> error + unit" where
  "validate_nbf now_s claims =
     (case claims ''nbf'' of
        None \<Rightarrow> Inr ()
      | Some v \<Rightarrow>
          bind_err (claim_int v) (\<lambda>nbf. if now_s < nbf then Inl JWTClaimsError else Inr ()))"

definition validate_exp :: "int \<Rightarrow> (string \<rightharpoonup> json) \<Rightarrow> error + unit" where
  "validate_exp now_s claims =
     (case claims ''exp'' of
        None \<Rightarrow> Inr ()
      | Some v \<Rightarrow>
          bind_err (claim_int v) (\<lambda>exp. if exp < now_s then Inl ExpiredSignatureError else Inr ()))"

definition validate_str :: "string \<Rightarrow> (string \<rightharpoonup> json) \<Rightarrow> error + unit" where
  "validate_str name claims =
     (case claims name of
        None \<Rightarrow> Inr ()
      | Some v \<Rightarrow> if is_str v then Inr () else Inl JWTClaimsError)"

definition validate_absent :: "string \<Rightarrow> (string \<rightharpoonup> json) \<Rightarrow> error + unit" where
  "validate_absent name claims =
     (case claims name of None \<Rightarrow> Inr () | Some _ \<Rightarrow> Inl JWTClaimsError)"

definition validate_claims :: "int \<Rightarrow> (string \<rightharpoonup> json) \<Rightarrow> error + unit" where
  "validate_claims now_s claims =
     bind_err (validate_iat claims) (\<lambda>_.
     bind_err (validate_nbf now_s claims) (\<lambda>_.
     bind_err (validate_exp now_s claims) (\<lambda>_.
     bind_err (validate_absent ''aud'' claims) (\<lambda>_.
     bind_err (validate_str ''sub'' claims) (\<lambda>_.
     bind_err (validate_str ''jti'' claims) (\<lambda>_.
     validate_absent ''at_hash'' claims))))))"

definition jwt_decode ::
  "int \<Rightarrow> token \<Rightarrow> string \<Rightarrow> string list \<Rightarrow> error + (string \<rightharpoonup> json)" where
  "jwt_decode now token key algorithms =
     (case token of
        NotEncodable \<Rightarrow> Inl UnicodeEncodeError
      | NotJws _ \<Rightarrow> Inl JWTError
      | Jws alg body sig \<Rightarrow>
          if alg \<notin> set algorithms then Inl JWTError
          else if alg \<notin> set HMAC_ALGORITHMS then Inl JOSEError
          else if sig \<noteq> Mac alg key body then Inl JWTError
          else (case body of
                  NotAnObject _ \<Rightarrow> Inl JWTError
                | Claims members \<Rightarrow>
                    bind_err (validate_claims (timegm now) (loads members))
                      (\<lambda>_. Inr (loads members))))"

subsection \<open>create_access_token and decode_access_token\<close>

text \<open>
  \<open>now\<close> is the reading of \<open>datetime.utcnow()\<close>. An \<open>expires_delta\<close> of \<open>None\<close> or of zero
  length is falsy and selects the configured lifetime. The subject is a string, for which
  \<open>str(subject)\<close> is the subject itself.
\<close>

definition expiry :: "settings \<Rightarrow> int \<Rightarrow> int option \<Rightarrow> error + int" where
  "expiry cfg now expires_delta =
     (case (if expires_delta = Some 0 then None else expires_delta) of
        Some delta \<Rightarrow> datetime_add now delta
      | None \<Rightarrow> bind_err (timedelta_minutes (ACCESS_TOKEN_EXPIRE_MINUTES cfg)) (datetime_add now))"

definition create_access_token :: "settings \<Rightarrow> int \<Rightarrow> string \<Rightarrow> int option \<Rightarrow> error + token" where
  "create_access_token cfg now subject expires_delta =
     bind_err (expiry cfg now expires_delta) (\<lambda>expire.
       let to_encode = [(''exp'', PyDateTime expire), (''sub'', PyStr subject)]
       in jwt_encode to_encode (SECRET_KEY cfg) (ALGORITHM cfg))"

definition decode_access_token ::
  "settings \<Rightarrow> int \<Rightarrow> token \<Rightarrow> error + (string \<rightharpoonup> json) option" where
  "decode_access_token cfg now token =
     (case jwt_decode now token (SECRET_KEY cfg) [ALGORITHM cfg] of
        Inr payload \<Rightarrow> Inr (Some payload)
      | Inl e \<Rightarrow> if is_JWTError e then Inr None else Inl e)"

section \<open>The users table (app/modules/user.py, app/db/base_class.py)\<close>

text \<open>
  A row of \<open>users\<close>: the columns of \<open>Base\<close> (\<open>id\<close>, \<open>created_at\<close>, \<open>updated_at\<close>) and of
  \<open>User\<close>. Only \<open>full_name\<close> is nullable. The table is the list of its rows.
\<close>

record user =
  user_id :: int
  email :: string
  hashed_password :: string
  full_name :: "string option"
  is_active :: bool
  is_superuser :: bool
  created_at :: int
  updated_at :: int

type_synonym db = "user list"

text \<open>The column attributes of a row by name, and their reading as a dictionary.\<close>

definition instance_dict :: "user \<Rightarrow> (string \<times> py_value) list" where
  "instance_dict u =
     [(''id'', PyInt (user_id u)),
      (''email'', PyStr (email u)),
      (''hashed_password'', PyStr (hashed_password u)),
      (''full_name'', (case full_name u of None \<Rightarrow> PyNone | Some n \<Rightarrow> PyStr n)),
      (''is_active'', PyBool (is_active u)),
      (''is_superuser'', PyBool (is_superuser u)),
      (''created_at'', PyDateTime (created_at u)),
      (''updated_at'', PyDateTime (updated_at u))]"

definition attrs :: "user \<Rightarrow> (string \<rightharpoonup> py_value)" where
  "attrs u = map_of (instance_dict u)"

text \<open>
  An instance of \<open>User\<close> in a session is in one of two states. Loaded, its \<open>__dict__\<close>
  holds the column attributes of the row it was loaded from. Expired, it holds none of
  them, only the identity of its row: \<open>SessionLocal\<close> (app/db/session.py) leaves
  \<open>expire_on_commit\<close> at its default, so every \<open>commit\<close> expires the instances of the
  session until they are refreshed or read again. No column is deferred, so the attributes
  are loaded together.
\<close>

datatype model_instance = Loaded user | Expired int

fun identity_key :: "model_instance \<Rightarrow> int" where
  "identity_key (Loaded u) = user_id u"
| "identity_key (Expired pk) = pk"

fun instance_vars :: "model_instance \<Rightarrow> (string \<times> py_value) list" where
  "instance_vars (Loaded u) = instance_dict u"
| "instance_vars (Expired pk) = []"

definition loaded_attrs :: "model_instance \<Rightarrow> (string \<rightharpoonup> py_value)" where
  "loaded_attrs db_obj = map_of (instance_vars db_obj)"

text \<open>\<open>jsonable_encoder(db_obj)\<close> encodes \<open>vars(db_obj)\<close> without the keys that begin with
  \<open>_sa\<close>, which leaves one key per loaded attribute; \<open>update\<close> reads its keys only.\<close>

definition jsonable_encoder_keys :: "model_instance \<Rightarrow> string list" where
  "jsonable_encoder_keys db_obj = map fst (instance_vars db_obj)"

subsection \<open>Flushing an instance\<close>

text \<open>
  \<open>setattr\<close> accepts any value; the columns are checked when the session flushes. A
  \<open>None\<close> in a column that is not nullable violates its constraint, an integer outside
  the 32 bits of \<open>Integer\<close> or a string longer than the 255 characters of \<open>String(255)\<close>
  does not fit, and a value of another Python type is taken to be refused (what a
  particular backend would coerce is outside the model).
\<close>

fun col_integer :: "py_value option \<Rightarrow> error + int" where
  "col_integer (Some (PyInt n)) =
     (if - 2147483648 \<le> n \<and> n \<le> 2147483647 then Inr n else Inl DataError)"
| "col_integer (Some PyNone) = Inl IntegrityError"
| "col_integer _ = Inl StatementError"

fun col_string :: "py_value option \<Rightarrow> error + string" where
  "col_string (Some (PyStr s)) = (if length s \<le> 255 then Inr s else Inl DataError)"
| "col_string (Some PyNone) = Inl IntegrityError"
| "col_string _ = Inl StatementError"

fun col_string_nullable :: "py_value option \<Rightarrow> error + string option" where
  "col_string_nullable (Some (PyStr s)) = (if length s \<le> 255 then Inr (Some s) else Inl DataError)"
| "col_string_nullable (Some PyNone) = Inr None"
| "col_string_nullable _ = Inl StatementError"

fun col_boolean :: "py_value option \<Rightarrow> error + bool" where
  "col_boolean (Some (PyBool b)) = Inr b"
| "col_boolean (Some PyNone) = Inl IntegrityError"
| "col_boolean _ = Inl StatementError"

fun col_datetime :: "py_value option \<Rightarrow> error + int" where
  "col_datetime (Some (PyDateTime t)) = Inr t"
| "col_datetime (Some PyNone) = Inl IntegrityError"
| "col_datetime _ = Inl StatementError"

definition row_of :: "(string \<rightharpoonup> py_value) \<Rightarrow> error + user" where
  "row_of obj =
     bind_err (col_integer (obj ''id'')) (\<lambda>i.
     bind_err (col_string (obj ''email'')) (\<lambda>e.
     bind_err (col_string (obj ''hashed_password'')) (\<lambda>h.
     bind_err (col_string_nullable (obj ''full_name'')) (\<lambda>n.
     bind_err (col_boolean (obj ''is_active'')) (\<lambda>a.
     bind_err (col_boolean (obj ''is_superuser'')) (\<lambda>s.
     bind_err (col_datetime (obj ''created_at'')) (\<lambda>c.
     bind_err (col_datetime (obj ''updated_at'')) (\<lambda>m.
       Inr \<lparr>user_id = i, email = e, hashed_password = h, full_name = n,
            is_active = a, is_superuser = s, created_at = c, updated_at = m\<rparr>))))))))"

text \<open>
  \<open>db.add(db_obj); db.commit(); db.refresh(db_obj)\<close> for an instance whose attributes now
  read \<open>pending\<close>. Only attributes that differ from the loaded ones are written, to the row
  with the instance's primary key; \<open>onupdate\<close> stamps \<open>updated_at\<close> unless the statement
  sets it. The primary key and \<open>email\<close> are unique. A refused statement leaves the table as
  it was. \<open>refresh\<close> reads the row back, for an expired instance too.
\<close>

definition dirty :: "model_instance \<Rightarrow> (string \<rightharpoonup> py_value) \<Rightarrow> bool" where
  "dirty db_obj pending =
     list_ex (\<lambda>field. pending field \<noteq> loaded_attrs db_obj field) (jsonable_encoder_keys db_obj)"

definition written ::
  "int \<Rightarrow> model_instance \<Rightarrow> (string \<rightharpoonup> py_value) \<Rightarrow> user \<Rightarrow> (string \<rightharpoonup> py_value)" where
  "written now db_obj pending row =
     (\<lambda>field. if pending field \<noteq> loaded_attrs db_obj field then pending field
              else if field = ''updated_at'' then Some (PyDateTime now)
              else attrs row field)"

definition conflicts :: "db \<Rightarrow> int \<Rightarrow> user \<Rightarrow> bool" where
  "conflicts db pk row =
     list_ex (\<lambda>r. user_id r \<noteq> pk \<and> (user_id r = user_id row \<or> email r = email row)) db"

definition commit_refresh ::
  "int \<Rightarrow> db \<Rightarrow> model_instance \<Rightarrow> (string \<rightharpoonup> py_value) \<Rightarrow> (error + user) \<times> db" where
  "commit_refresh now db db_obj pending =
     (case find (\<lambda>r. user_id r = identity_key db_obj) db of
        None \<Rightarrow> (Inl (if dirty db_obj pending then StaleDataError else InvalidRequestError), db)
      | Some row \<Rightarrow>
          if \<not> dirty db_obj pending then (Inr row, db)
          else (case row_of (written now db_obj pending row) of
                  Inl e \<Rightarrow> (Inl e, db)
                | Inr row' \<Rightarrow>
                    if conflicts db (identity_key db_obj) row' then (Inl IntegrityError, db)
                    else (Inr row',
                          map (\<lambda>r. if user_id r = identity_key db_obj then row' else r) db)))"

section \<open>The update schema (app/schemas/user.py)\<close>

text \<open>
  Every field of \<open>UserUpdate\<close> is optional and defaults to \<open>None\<close>. Pydantic remembers
  which fields the request set, so a field is unset, set to null, or set to a value;
  \<open>model_dump(exclude_unset=True)\<close> lists the fields that were set.
\<close>

datatype 'a field = Unset | Null | Given 'a

record UserUpdate =
  upd_email :: "string field"
  upd_password :: "string field"
  upd_full_name :: "string field"
  upd_is_active :: "bool field"
  upd_is_superuser :: "bool field"

fun dump_field :: "string \<Rightarrow> ('a \<Rightarrow> py_value) \<Rightarrow> 'a field \<Rightarrow> (string \<times> py_value) list" where
  "dump_field name conv Unset = []"
| "dump_field name conv Null = [(name, PyNone)]"
| "dump_field name conv (Given v) = [(name, conv v)]"

definition model_dump_exclude_unset :: "UserUpdate \<Rightarrow> (string \<rightharpoonup> py_value)" where
  "model_dump_exclude_unset obj_in =
     map_of (dump_field ''email'' PyStr (upd_email obj_in)
           @ dump_field ''password'' PyStr (upd_password obj_in)
           @ dump_field ''full_name'' PyStr (upd_full_name obj_in)
           @ dump_field ''is_active'' PyBool (upd_is_active obj_in)
           @ dump_field ''is_superuser'' PyBool (upd_is_superuser obj_in))"

text \<open>\<open>update\<close> takes the schema or a plain dictionary, and reads either as a
  dictionary: \<open>obj_in if isinstance(obj_in, dict) else obj_in.model_dump(exclude_unset=True)\<close>.\<close>

datatype update_in = Schema UserUpdate | Dict "string \<rightharpoonup> py_value"

definition update_data_of :: "update_in \<Rightarrow> (string \<rightharpoonup> py_value)" where
  "update_data_of obj_in = (case obj_in of Dict d \<Rightarrow> d | Schema s \<Rightarrow> model_dump_exclude_unset s)"

section \<open>The generic repository (app/crud/base.py)\<close>

definition CRUDBase_get :: "db \<Rightarrow> int \<Rightarrow> user option" where
  "CRUDBase_get db ident = find (\<lambda>r. user_id r = ident) db"

text \<open>\<open>update\<close> sets the attributes that are keys of both \<open>jsonable_encoder(db_obj)\<close> and
  the payload, then commits and refreshes; the instance it returns is loaded.\<close>

definition CRUDBase_update ::
  "int \<Rightarrow> db \<Rightarrow> model_instance \<Rightarrow> update_in \<Rightarrow> (error + user) \<times> db" where
  "CRUDBase_update now db db_obj obj_in =
     (let obj_data = jsonable_encoder_keys db_obj;
          update_data = update_data_of obj_in;
          pending = fold (\<lambda>field obj. case update_data field of
                                          None \<Rightarrow> obj
                                        | Some v \<Rightarrow> obj(field \<mapsto> v))
                      obj_data (loaded_attrs db_obj)
      in commit_refresh now db db_obj pending)"

definition CRUDBase_remove :: "db \<Rightarrow> int \<Rightarrow> user option \<times> db" where
  "CRUDBase_remove db ident =
     (case find (\<lambda>r. user_id r = ident) db of
        None \<Rightarrow> (None, db)
      | Some obj \<Rightarrow> (Some obj, filter (\<lambda>r. user_id r \<noteq> user_id obj) db))"

section \<open>The user repository (app/crud/crud_user.py)\<close>


definition CRUDUser_update ::
  "crypt_context \<Rightarrow> string \<Rightarrow> int \<Rightarrow> db \<Rightarrow> model_instance \<Rightarrow> update_in
     \<Rightarrow> (error + user) \<times> db" where
  "CRUDUser_update pwd_context salt now db db_obj obj_in =
     (let update_data = update_data_of obj_in
      in case update_data ''password'' of
           None \<Rightarrow> CRUDBase_update now db db_obj (Dict update_data)
         | Some password \<Rightarrow>
             (case get_password_hash pwd_context salt password of
                Inl e \<Rightarrow> (Inl e, db)
              | Inr hashed \<Rightarrow>
                  CRUDBase_update now db db_obj
                    (Dict (update_data(''password'' := None, ''hashed_password'' \<mapsto> PyStr hashed)))))"


definition CRUDUser_is_active :: "user \<Rightarrow> bool" where
  "CRUDUser_is_active u = is_active u"

definition CRUDUser_is_superuser :: "user \<Rightarrow> bool" where
  "CRUDUser_is_superuser u = is_superuser u"

section \<open>Dependencies (app/api/deps.py)\<close>

definition get_current_active_user :: "user \<Rightarrow> error + user" where
  "get_current_active_user current_user =
     (if \<not> CRUDUser_is_active current_user then Inl (HTTPException 400 ''Inactive user'')
      else Inr current_user)"

definition get_current_active_superuser :: "user \<Rightarrow> error + user" where
  "get_current_active_superuser current_user =
     (if \<not> CRUDUser_is_superuser current_user
      then Inl (HTTPException 403 ''The user doesn't have enough privileges'')
      else Inr current_user)"

section \<open>Endpoints (app/api/v1/endpoints/users.py)\<close>



text \<open>\<open>current_user\<close> is the instance that the dependencies loaded by its email in the
  session of this request; nothing is committed before the handler runs, so it is loaded.\<close>

definition update_user_me ::
  "crypt_context \<Rightarrow> string \<Rightarrow> int \<Rightarrow> db \<Rightarrow> UserUpdate \<Rightarrow> user \<Rightarrow> (error + user) \<times> db" where
  "update_user_me pwd_context salt now db user_in current_user =
     CRUDUser_update pwd_context salt now db (Loaded current_user) (Schema user_in)"

definition delete_user :: "db \<Rightarrow> int \<Rightarrow> user \<Rightarrow> (error + user) \<times> db" where
  "delete_user db ident current_user =
     (case CRUDBase_get db ident of
        None \<Rightarrow> (Inl (HTTPException 404 ''User not found''), db)
      | Some u \<Rightarrow>
          if user_id u = user_id current_user
          then (Inl (HTTPException 400 ''Users cannot delete themselves''), db)
          else (case CRUDBase_remove db ident of
                  (None, db') \<Rightarrow> (Inl ResponseValidationError, db')
                | (Some removed, db') \<Rightarrow> (Inr removed, db')))"

section \<open>Sample data (app/tests/tests_users.py, app/core/config.py)\<close>

text \<open>
  The two users of the test fixtures, as rows whose passwords were hashed by
  \<open>sample_context\<close>, and the default settings. They are the concrete inputs on which the
  theorems below are instantiated.
\<close>

definition test_user :: user where
  "test_user =
     \<lparr>user_id = 1, email = ''test@example.com'',
      hashed_password = ''$2b$salt1$testpassword123'', full_name = Some ''Test User'',
      is_active = True, is_superuser = False, created_at = 100, updated_at = 100\<rparr>"

definition test_superuser :: user where
  "test_superuser =
     \<lparr>user_id = 2, email = ''admin@example.com'',
      hashed_password = ''$2b$salt2$adminpassword123'', full_name = Some ''Admin User'',
      is_active = True, is_superuser = True, created_at = 200, updated_at = 200\<rparr>"

definition default_settings :: settings where
  "default_settings =
     \<lparr>SECRET_KEY = ''your-super-secret-key-change-this-in-production'',
      ALGORITHM = ''HS256'', ACCESS_TOKEN_EXPIRE_MINUTES = 43200\<rparr>"

definition no_update :: UserUpdate where
  "no_update =
     \<lparr>upd_email = Unset, upd_password = Unset, upd_full_name = Unset,
      upd_is_active = Unset, upd_is_superuser = Unset\<rparr>"

section \<open>Properties of the dependencies\<close>

text \<open>
  C9. The administrative gate \<open>get_current_active_superuser\<close> looks at \<open>is_superuser\<close> only:
  a user who is a superuser and is not active passes it and is returned unchanged.
\<close>

theorem inactive_superuser_passes_gate:
  assumes "is_superuser u" and "\<not> is_active u"
  shows "get_current_active_superuser u = Inr u"
  using assms(1) by (simp add: get_current_active_superuser_def CRUDUser_is_superuser_def)

theorem inactive_superuser_passes_gate_witness:
  "get_current_active_superuser (test_superuser\<lparr>is_active := False\<rparr>)
     = Inr (test_superuser\<lparr>is_active := False\<rparr>)
   \<and> get_current_active_user (test_superuser\<lparr>is_active := False\<rparr>)
     = Inl (HTTPException 400 ''Inactive user'')"
  using inactive_superuser_passes_gate [of "test_superuser\<lparr>is_active := False\<rparr>"]
  by (simp add: test_superuser_def get_current_active_user_def CRUDUser_is_active_def)

section \<open>Properties of authentication\<close>

lemma find_SomeD: "find P xs = Some x \<Longrightarrow> x \<in> set xs \<and> P x"
  by (induction xs) (auto split: if_splits)





section \<open>Properties of the endpoints\<close>


lemma create_access_token_default:
  "create_access_token default_settings 1000000 ''test@example.com'' None
     = Inr (Jws ''HS256'' (Claims [(''exp'', JInt 2592001), (''sub'', JStr ''test@example.com'')])
             (Mac ''HS256'' ''your-super-secret-key-change-this-in-production''
               (Claims [(''exp'', JInt 2592001), (''sub'', JStr ''test@example.com'')])))"
  by (simp add: create_access_token_def expiry_def timedelta_minutes_def datetime_add_def
      timedelta_min_def timedelta_max_def datetime_min_def datetime_max_def bind_err_def
      jwt_encode_def HMAC_ALGORITHMS_def timegm_def default_settings_def)


lemma find_filter_not: "find P (filter (\<lambda>x. \<not> P x) xs) = None"
  by (induction xs) auto

text \<open>
  C8. \<open>DELETE /users/{id}\<close>: when no row has the id the endpoint raises 404 and the table is
  as before; when the row found has the caller's id it raises 400 and the table is as
  before; otherwise it returns the row as it was found, and the table afterwards is the old
  one without the rows of that id (every other row is kept, and looking the id up again
  finds nothing).
\<close>

theorem delete_user_cases:
  "(CRUDBase_get db ident = None
      \<longrightarrow> delete_user db ident current_user = (Inl (HTTPException 404 ''User not found''), db))
   \<and> (\<forall>u. CRUDBase_get db ident = Some u \<and> ident = user_id current_user
      \<longrightarrow> delete_user db ident current_user
            = (Inl (HTTPException 400 ''Users cannot delete themselves''), db))
   \<and> (\<forall>u. CRUDBase_get db ident = Some u \<and> ident \<noteq> user_id current_user
      \<longrightarrow> delete_user db ident current_user = (Inr u, filter (\<lambda>r. user_id r \<noteq> ident) db)
          \<and> CRUDBase_get (snd (delete_user db ident current_user)) ident = None)"
proof (intro conjI allI impI)
  assume "CRUDBase_get db ident = None"
  then show "delete_user db ident current_user = (Inl (HTTPException 404 ''User not found''), db)"
    by (simp add: delete_user_def)
next
  fix u
  assume h: "CRUDBase_get db ident = Some u \<and> ident = user_id current_user"
  then have g: "CRUDBase_get db ident = Some u" and me: "ident = user_id current_user"
    by (rule conjunct1, rule conjunct2)
  from g have "user_id u = ident"
    unfolding CRUDBase_get_def by (rule find_SomeD [THEN conjunct2])
  with me have "user_id u = user_id current_user" by simp
  with g show "delete_user db ident current_user
                 = (Inl (HTTPException 400 ''Users cannot delete themselves''), db)"
    by (simp add: delete_user_def)
next
  fix u
  assume h: "CRUDBase_get db ident = Some u \<and> ident \<noteq> user_id current_user"
  then have g: "CRUDBase_get db ident = Some u" and other: "ident \<noteq> user_id current_user"
    by (rule conjunct1, rule conjunct2)
  from g have id: "user_id u = ident"
    unfolding CRUDBase_get_def by (rule find_SomeD [THEN conjunct2])
  from g have rm: "CRUDBase_remove db ident = (Some u, filter (\<lambda>r. user_id r \<noteq> ident) db)"
    by (simp add: CRUDBase_remove_def CRUDBase_get_def id)
  from g id other rm
  show del: "delete_user db ident current_user = (Inr u, filter (\<lambda>r. user_id r \<noteq> ident) db)"
    by (simp add: delete_user_def)
  show "CRUDBase_get (snd (delete_user db ident current_user)) ident = None"
    unfolding del CRUDBase_get_def snd_conv
    by (rule find_filter_not [of "\<lambda>r. user_id r = ident" db])
qed

theorem delete_user_cases_witness:
  "CRUDBase_get [test_user, test_superuser] 3 = None
   \<and> delete_user [test_user, test_superuser] 3 test_superuser
       = (Inl (HTTPException 404 ''User not found''), [test_user, test_superuser])
   \<and> CRUDBase_get [test_user, test_superuser] 2 = Some test_superuser
   \<and> delete_user [test_user, test_superuser] 2 test_superuser
       = (Inl (HTTPException 400 ''Users cannot delete themselves''), [test_user, test_superuser])
   \<and> CRUDBase_get [test_user, test_superuser] 1 = Some test_user
   \<and> delete_user [test_user, test_superuser] 1 test_superuser = (Inr test_user, [test_superuser])"
proof -
  let ?db = "[test_user, test_superuser]"
  have g3: "CRUDBase_get ?db 3 = None"
    and g2: "CRUDBase_get ?db 2 = Some test_superuser"
    and g1: "CRUDBase_get ?db 1 = Some test_user"
    by (simp_all add: CRUDBase_get_def test_user_def test_superuser_def)
  have me: "user_id test_superuser = 2" by (simp add: test_superuser_def)
  have f: "filter (\<lambda>r. user_id r \<noteq> 1) ?db = [test_superuser]"
    by (simp add: test_user_def test_superuser_def)
  from delete_user_cases [of ?db 3 test_superuser] g3
  have a: "delete_user ?db 3 test_superuser = (Inl (HTTPException 404 ''User not found''), ?db)"
    by blast
  from delete_user_cases [of ?db 2 test_superuser] g2 me
  have b: "delete_user ?db 2 test_superuser
             = (Inl (HTTPException 400 ''Users cannot delete themselves''), ?db)"
    by simp
  from delete_user_cases [of ?db 1 test_superuser] g1 me
  have "delete_user ?db 1 test_superuser = (Inr test_user, filter (\<lambda>r. user_id r \<noteq> 1) ?db)"
    by simp
  with f have c: "delete_user ?db 1 test_superuser = (Inr test_user, [test_superuser])"
    by simp
  from g3 a g2 b g1 c show ?thesis by blast
qed

section \<open>Properties of password hashing\<close>

lemma digit_of_nth: "k < 10 \<Longrightarrow> digit_of (''0123456789'' ! k) = Some k"
proof -
  assume "k < 10"
  then have "k \<in> {0, 1, 2, 3, 4, 5, 6, 7, 8, 9}" by auto
  then show ?thesis by (auto simp: digit_of_def)
qed

lemma digit_of_SomeD: "digit_of c = Some x \<Longrightarrow> x < 10 \<and> c = ''0123456789'' ! x"
proof -
  assume a: "digit_of c = Some x"
  then have x: "x < 10" and c: "of_char c = 48 + x"
    by (auto simp: digit_of_def Let_def split: if_splits)
  from x have "digit_of (''0123456789'' ! x) = Some x" by (rule digit_of_nth)
  then have "of_char (''0123456789'' ! x) = 48 + x"
    by (auto simp: digit_of_def Let_def split: if_splits)
  with c have "(of_char c :: nat) = of_char (''0123456789'' ! x)" by simp
  then have "c = ''0123456789'' ! x" by (simp only: of_char_eq_iff)
  with x show ?thesis by simp
qed

lemma cost_field_two_digits:
  "4 \<le> n \<Longrightarrow> n \<le> 31 \<Longrightarrow> cost_field (two_digits n) = Some n"
proof -
  assume n: "4 \<le> n" "n \<le> 31"
  then have d: "n div 10 < 10" "n mod 10 < 10" by auto
  have "10 * (n div 10) + n mod 10 = n" by simp
  with n show ?thesis
    unfolding cost_field_def two_digits_def
    by (simp add: digit_of_nth [OF d(1)] digit_of_nth [OF d(2)])
qed

lemma cost_field_SomeD:
  "cost_field s = Some r \<Longrightarrow> 4 \<le> r \<and> r \<le> 31 \<and> s = two_digits r"
proof -
  assume a: "cost_field s = Some r"
  then obtain a' b x y where s: "s = [a', b]" and x: "digit_of a' = Some x"
    and y: "digit_of b = Some y" and r: "r = 10 * x + y" and range: "4 \<le> r" "r \<le> 31"
    by (auto simp: cost_field_def split: list.splits option.splits if_splits)
  from digit_of_SomeD [OF x] digit_of_SomeD [OF y]
  have "x < 10" "a' = ''0123456789'' ! x" "y < 10" "b = ''0123456789'' ! y" by simp_all
  with s r have "s = two_digits r" by (simp add: two_digits_def)
  with range show ?thesis by simp
qed

lemma two_digits_no_dollar: "n \<le> 31 \<Longrightarrow> c \<in> set (two_digits n) \<Longrightarrow> c \<noteq> CHR ''$''"
proof -
  assume n: "n \<le> 31" and c: "c \<in> set (two_digits n)"
  from n have d: "n div 10 < 10" "n mod 10 < 10" by auto
  from c have "c = ''0123456789'' ! (n div 10) \<or> c = ''0123456789'' ! (n mod 10)"
    by (auto simp: two_digits_def)
  with digit_of_nth [OF d(1)] digit_of_nth [OF d(2)]
  have "digit_of c \<noteq> None" by auto
  then show ?thesis by (auto simp: digit_of_def)
qed

lemma parse_ident_append:
  "ident \<in> set [''$2$'', ''$2a$'', ''$2x$'', ''$2y$'', ''$2b$'']
   \<Longrightarrow> parse_ident (ident @ tail) = Some (ident, tail)"
  by (auto simp: parse_ident_def)

lemma parse_ident_SomeD:
  "parse_ident hash = Some (ident, tail)
   \<Longrightarrow> ident \<in> set [''$2$'', ''$2a$'', ''$2x$'', ''$2y$'', ''$2b$''] \<and> hash = ident @ tail"
proof -
  define idents where "idents = [''$2$'', ''$2a$'', ''$2x$'', ''$2y$'', ''$2b$'']"
  assume "parse_ident hash = Some (ident, tail)"
  then have "(case find (\<lambda>ident. take (length ident) hash = ident) idents of
                None \<Rightarrow> None
              | Some ident \<Rightarrow> Some (ident, drop (length ident) hash)) = Some (ident, tail)"
    unfolding parse_ident_def idents_def .
  then have f: "find (\<lambda>ident. take (length ident) hash = ident) idents = Some ident"
    and t: "tail = drop (length ident) hash"
    by (auto split: option.splits)
  from f have "ident \<in> set idents \<and> take (length ident) hash = ident"
    by (rule find_SomeD)
  moreover have "hash = take (length ident) hash @ drop (length ident) hash" by simp
  ultimately show ?thesis using t unfolding idents_def by metis
qed

lemma bcrypt_from_string_well_formed:
  assumes "ident \<in> set [''$2$'', ''$2a$'', ''$2y$'', ''$2b$'']"
      and "4 \<le> cost" "cost \<le> 31"
      and "length salt = 22" "length chk = 31"
      and "set (salt @ chk) \<subseteq> set bcrypt64_chars"
  shows "bcrypt_from_string (ident @ two_digits cost @ ''$'' @ salt @ chk)
           = Some (ident, cost, salt, chk)"
proof -
  let ?tail = "two_digits cost @ ''$'' @ salt @ chk"
  from assms(1) have p: "parse_ident (ident @ ?tail) = Some (ident, ?tail)"
    by (intro parse_ident_append) auto
  from assms(1) have x: "ident \<noteq> ''$2x$''" by auto
  have tw: "takeWhile (\<lambda>c. c \<noteq> CHR ''$'') (two_digits cost @ CHR ''$'' # salt @ chk)
              = two_digits cost"
    using two_digits_no_dollar [OF assms(3)] by (simp add: takeWhile_append2)
  have dw: "dropWhile (\<lambda>c. c \<noteq> CHR ''$'') (two_digits cost @ CHR ''$'' # salt @ chk)
              = CHR ''$'' # salt @ chk"
    using two_digits_no_dollar [OF assms(3)] by (simp add: dropWhile_append2)
  have nd: "CHR ''$'' \<notin> set (salt @ chk)"
    using assms(6) by (auto simp: bcrypt64_chars_def)
  have al: "list_all (\<lambda>c. c \<in> set bcrypt64_chars) (salt @ chk)"
    using assms(6) by (auto simp: list_all_iff)
  show ?thesis
    unfolding bcrypt_from_string_def p
    using x nd al assms(4,5)
    by (simp add: Let_def tw dw cost_field_two_digits [OF assms(2,3)])
qed

lemma bcrypt_from_string_SomeD:
  assumes "bcrypt_from_string hash = Some (ident, cost, salt, chk)"
  shows "ident \<in> set [''$2$'', ''$2a$'', ''$2y$'', ''$2b$'']
         \<and> 4 \<le> cost \<and> cost \<le> 31 \<and> length salt = 22 \<and> length chk = 31
         \<and> set (salt @ chk) \<subseteq> set bcrypt64_chars
         \<and> hash = ident @ two_digits cost @ ''$'' @ salt @ chk"
proof -
  from assms obtain tail where p: "parse_ident hash = Some (ident, tail)"
    unfolding bcrypt_from_string_def
    by (cases "parse_ident hash") (auto simp: Let_def split: if_splits option.splits)
  define rounds_str where "rounds_str = takeWhile (\<lambda>c. c \<noteq> CHR ''$'') tail"
  define rest where "rest = dropWhile (\<lambda>c. c \<noteq> CHR ''$'') tail"
  have body: "bcrypt_from_string hash =
     (if ident = ''$2x$'' then None
      else if rest = [] \<or> CHR ''$'' \<in> set (tl rest) then None
      else (case cost_field rounds_str of
              None \<Rightarrow> None
            | Some rounds \<Rightarrow>
                if length (take 22 (tl rest)) = 22 \<and> length (drop 22 (tl rest)) = 31
                   \<and> list_all (\<lambda>c. c \<in> set bcrypt64_chars)
                        (take 22 (tl rest) @ drop 22 (tl rest))
                then Some (ident, rounds, take 22 (tl rest), drop 22 (tl rest))
                else None))"
    unfolding bcrypt_from_string_def p rounds_str_def rest_def
    by (simp only: Let_def option.case prod.case)
  from assms have x: "ident \<noteq> ''$2x$''" and rest: "rest \<noteq> []"
    and c: "cost_field rounds_str = Some cost"
    and salt: "salt = take 22 (tl rest)" and chk: "chk = drop 22 (tl rest)"
    and len: "length salt = 22" "length chk = 31"
    and al: "list_all (\<lambda>c. c \<in> set bcrypt64_chars) (salt @ chk)"
    unfolding body
    by (auto split: option.splits if_splits simp del: list_all_append append_take_drop_id)
  from parse_ident_SomeD [OF p] x
  have i: "ident \<in> set [''$2$'', ''$2a$'', ''$2y$'', ''$2b$'']" and h: "hash = ident @ tail"
    by auto
  from cost_field_SomeD [OF c] have r: "4 \<le> cost" "cost \<le> 31" "rounds_str = two_digits cost"
    by simp_all
  have "tail = rounds_str @ rest"
    by (simp add: rounds_str_def rest_def)
  moreover from rest have "hd rest = CHR ''$''"
    unfolding rest_def using hd_dropWhile [of "\<lambda>c. c \<noteq> CHR ''$''" tail] by simp
  with rest have "rest = CHR ''$'' # tl rest" by (cases rest) simp_all
  moreover have "tl rest = salt @ chk" by (simp add: salt chk)
  ultimately have "tail = two_digits cost @ ''$'' @ salt @ chk" using r(3) by simp
  with h i r(1,2) len al show ?thesis by (auto simp: list_all_iff)
qed


lemma bcrypt_identify_append:
  "ident \<in> set [''$2$'', ''$2a$'', ''$2y$'', ''$2b$''] \<Longrightarrow> bcrypt_identify (ident @ tail)"
  by (auto simp: bcrypt_identify_def)

text \<open>
  C3 (as the code has it). With bcrypt the only scheme of the context, \<open>verify_password\<close>
  returns a boolean for every well-formed bcrypt hash string (an ident other than \<open>$2x$\<close>,
  a two-digit cost from 04 to 31, \<open>$\<close>, 22 salt and 31 digest characters of bcrypt's
  alphabet) and every plaintext of at most 4096 bytes without NUL, and only for these. On a malformed hash string it raises instead of returning false:
  \<open>UnknownHashError\<close> when the string does not begin with a bcrypt ident, \<open>ValueError\<close>
  when it does.
\<close>

theorem verify_password_boolean_only_on_bcrypt_hash:
  assumes "identify ctx = bcrypt_identify"
      and "handler_verify ctx = bcrypt_verify check"
  shows "(\<not> bcrypt_identify hashed
            \<longrightarrow> verify_password ctx plain hashed = Inl UnknownHashError)
       \<and> (ident \<in> set [''$2$'', ''$2a$'', ''$2y$'', ''$2b$''] \<and> 4 \<le> cost \<and> cost \<le> 31
            \<and> length salt = 22 \<and> length chk = 31 \<and> set (salt @ chk) \<subseteq> set bcrypt64_chars
            \<and> utf8_length plain \<le> 4096 \<and> CHR 0x00 \<notin> set plain
            \<longrightarrow> verify_password ctx plain (ident @ two_digits cost @ ''$'' @ salt @ chk)
                  = Inr (check plain (ident @ two_digits cost @ ''$'' @ salt @ chk)))
       \<and> (\<forall>b. verify_password ctx plain hashed = Inr b
            \<longrightarrow> utf8_length plain \<le> 4096 \<and> CHR 0x00 \<notin> set plain
                \<and> (\<exists>ident cost salt chk.
                      hashed = ident @ two_digits cost @ ''$'' @ salt @ chk
                      \<and> ident \<in> set [''$2$'', ''$2a$'', ''$2y$'', ''$2b$'']
                      \<and> 4 \<le> cost \<and> cost \<le> 31 \<and> length salt = 22 \<and> length chk = 31
                      \<and> set (salt @ chk) \<subseteq> set bcrypt64_chars))
       \<and> (\<forall>e. verify_password ctx plain hashed = Inl e
            \<longrightarrow> e = (if bcrypt_identify hashed then ValueError else UnknownHashError))"
proof -
  have v: "verify_password ctx p h
             = (if bcrypt_identify h then bcrypt_verify check p h else Inl UnknownHashError)"
    for p h
    by (simp add: verify_password_def CryptContext_verify_def assms)
  have unknown: "verify_password ctx plain hashed = Inl UnknownHashError"
    if "\<not> bcrypt_identify hashed"
    using that by (simp add: v)
  have boolean: "verify_password ctx plain (ident @ two_digits cost @ ''$'' @ salt @ chk)
                   = Inr (check plain (ident @ two_digits cost @ ''$'' @ salt @ chk))"
    if "ident \<in> set [''$2$'', ''$2a$'', ''$2y$'', ''$2b$'']" "4 \<le> cost" "cost \<le> 31"
       "length salt = 22" "length chk = 31" "set (salt @ chk) \<subseteq> set bcrypt64_chars"
       "utf8_length plain \<le> 4096" "CHR 0x00 \<notin> set plain"
  proof -
    from that(1) have "bcrypt_identify (ident @ two_digits cost @ ''$'' @ salt @ chk)"
      by (rule bcrypt_identify_append)
    moreover from that(1-6)
    have "bcrypt_from_string (ident @ two_digits cost @ ''$'' @ salt @ chk)
            = Some (ident, cost, salt, chk)"
      by (rule bcrypt_from_string_well_formed)
    ultimately show ?thesis
      using that(7,8) by (simp add: v bcrypt_verify_def del: set_append)
  qed
  have only: "utf8_length plain \<le> 4096 \<and> CHR 0x00 \<notin> set plain
              \<and> (\<exists>ident cost salt chk.
                    hashed = ident @ two_digits cost @ ''$'' @ salt @ chk
                    \<and> ident \<in> set [''$2$'', ''$2a$'', ''$2y$'', ''$2b$'']
                    \<and> 4 \<le> cost \<and> cost \<le> 31 \<and> length salt = 22 \<and> length chk = 31
                    \<and> set (salt @ chk) \<subseteq> set bcrypt64_chars)"
    if "verify_password ctx plain hashed = Inr b" for b
  proof -
    from that have bv: "bcrypt_verify check plain hashed = Inr b"
      by (auto simp: v split: if_splits)
    from bv have sec: "utf8_length plain \<le> 4096" "CHR 0x00 \<notin> set plain"
      by (auto simp: bcrypt_verify_def split: if_splits)
    from bv obtain ident cost salt chk
      where "bcrypt_from_string hashed = Some (ident, cost, salt, chk)"
      by (auto simp: bcrypt_verify_def split: if_splits option.splits)
    from bcrypt_from_string_SomeD [OF this] sec show ?thesis by blast
  qed
  have raises: "e = (if bcrypt_identify hashed then ValueError else UnknownHashError)"
    if "verify_password ctx plain hashed = Inl e" for e
    using that by (auto simp: v bcrypt_verify_def split: if_splits option.splits)
  show ?thesis
  proof (intro conjI allI impI)
    assume "\<not> bcrypt_identify hashed"
    then show "verify_password ctx plain hashed = Inl UnknownHashError" by (rule unknown)
  next
    assume "ident \<in> set [''$2$'', ''$2a$'', ''$2y$'', ''$2b$''] \<and> 4 \<le> cost \<and> cost \<le> 31
            \<and> length salt = 22 \<and> length chk = 31 \<and> set (salt @ chk) \<subseteq> set bcrypt64_chars
            \<and> utf8_length plain \<le> 4096 \<and> CHR 0x00 \<notin> set plain"
    then show "verify_password ctx plain (ident @ two_digits cost @ ''$'' @ salt @ chk)
                 = Inr (check plain (ident @ two_digits cost @ ''$'' @ salt @ chk))"
      by (elim conjE) (rule boolean)
  next
    fix b assume "verify_password ctx plain hashed = Inr b"
    from only [OF this] show "utf8_length plain \<le> 4096" by (rule conjunct1)
  next
    fix b assume "verify_password ctx plain hashed = Inr b"
    from only [OF this] show "CHR 0x00 \<notin> set plain" by (rule conjunct2 [THEN conjunct1])
  next
    fix b assume "verify_password ctx plain hashed = Inr b"
    from only [OF this]
    show "\<exists>ident cost salt chk.
            hashed = ident @ two_digits cost @ ''$'' @ salt @ chk
            \<and> ident \<in> set [''$2$'', ''$2a$'', ''$2y$'', ''$2b$'']
            \<and> 4 \<le> cost \<and> cost \<le> 31 \<and> length salt = 22 \<and> length chk = 31
            \<and> set (salt @ chk) \<subseteq> set bcrypt64_chars"
      by (rule conjunct2 [THEN conjunct2])
  next
    fix e assume "verify_password ctx plain hashed = Inl e"
    then show "e = (if bcrypt_identify hashed then ValueError else UnknownHashError)"
      by (rule raises)
  qed
qed

theorem verify_password_boolean_only_on_bcrypt_hash_witness:
  "verify_password (sample_context\<lparr>handler_verify := bcrypt_verify (\<lambda>secret hash. False)\<rparr>)
      ''testpassword123'' ''not-a-hash'' = Inl UnknownHashError
   \<and> verify_password (sample_context\<lparr>handler_verify := bcrypt_verify (\<lambda>secret hash. False)\<rparr>)
        ''testpassword123'' [] = Inl UnknownHashError
   \<and> ''$2b$12$LQv3c1yqBWVHxkd0LHAkCOYz6TtxMQJqhN8/LewY5NU7gjtkJ3Ve6''
        = ''$2b$'' @ two_digits 12 @ ''$'' @ ''LQv3c1yqBWVHxkd0LHAkCO''
            @ ''Yz6TtxMQJqhN8/LewY5NU7gjtkJ3Ve6''
   \<and> verify_password (sample_context\<lparr>handler_verify := bcrypt_verify (\<lambda>secret hash. False)\<rparr>)
        ''wrongpassword'' ''$2b$12$LQv3c1yqBWVHxkd0LHAkCOYz6TtxMQJqhN8/LewY5NU7gjtkJ3Ve6''
        = Inr False
   \<and> bcrypt_identify ''$2b$salt1$testpassword123''
   \<and> verify_password (sample_context\<lparr>handler_verify := bcrypt_verify (\<lambda>secret hash. False)\<rparr>)
        ''testpassword123'' ''$2b$salt1$testpassword123'' = Inl ValueError"
proof -
  let ?ctx = "sample_context\<lparr>handler_verify := bcrypt_verify (\<lambda>secret hash. False)\<rparr>"
  have i: "identify ?ctx = bcrypt_identify" by (simp add: sample_context_def)
  have h: "handler_verify ?ctx = bcrypt_verify (\<lambda>secret hash. False)" by simp
  note cases = verify_password_boolean_only_on_bcrypt_hash [OF i h]
  have n1: "\<not> bcrypt_identify ''not-a-hash''" by (simp add: bcrypt_identify_def)
  have n2: "\<not> bcrypt_identify []" by (simp add: bcrypt_identify_def)
  have a: "verify_password ?ctx ''testpassword123'' ''not-a-hash'' = Inl UnknownHashError"
    using cases [where hashed = "''not-a-hash''" and plain = "''testpassword123''",
                 THEN conjunct1] n1 by simp
  have b: "verify_password ?ctx ''testpassword123'' [] = Inl UnknownHashError"
    using cases [where hashed = "[]" and plain = "''testpassword123''", THEN conjunct1] n2
    by simp
  have shape: "''$2b$12$LQv3c1yqBWVHxkd0LHAkCOYz6TtxMQJqhN8/LewY5NU7gjtkJ3Ve6''
                 = ''$2b$'' @ two_digits 12 @ ''$'' @ ''LQv3c1yqBWVHxkd0LHAkCO''
                     @ ''Yz6TtxMQJqhN8/LewY5NU7gjtkJ3Ve6''"
    by (simp add: two_digits_def)
  have wf: "''$2b$'' \<in> set [''$2$'', ''$2a$'', ''$2y$'', ''$2b$''] \<and> (4::nat) \<le> 12 \<and> (12::nat) \<le> 31
            \<and> length ''LQv3c1yqBWVHxkd0LHAkCO'' = 22
            \<and> length ''Yz6TtxMQJqhN8/LewY5NU7gjtkJ3Ve6'' = 31
            \<and> set (''LQv3c1yqBWVHxkd0LHAkCO'' @ ''Yz6TtxMQJqhN8/LewY5NU7gjtkJ3Ve6'')
                \<subseteq> set bcrypt64_chars
            \<and> utf8_length ''wrongpassword'' \<le> 4096 \<and> CHR 0x00 \<notin> set ''wrongpassword''"
    by (simp add: bcrypt64_chars_def utf8_length_def)
  have c: "verify_password ?ctx ''wrongpassword''
             ''$2b$12$LQv3c1yqBWVHxkd0LHAkCOYz6TtxMQJqhN8/LewY5NU7gjtkJ3Ve6'' = Inr False"
    unfolding shape
    by (rule cases [where ident = "''$2b$''" and cost = 12
                      and salt = "''LQv3c1yqBWVHxkd0LHAkCO''"
                      and chk = "''Yz6TtxMQJqhN8/LewY5NU7gjtkJ3Ve6''"
                      and plain = "''wrongpassword''",
                    THEN conjunct2, THEN conjunct1, rule_format, OF wf])
  have m: "bcrypt_identify ''$2b$salt1$testpassword123''" by (simp add: bcrypt_identify_def)
  have "verify_password ?ctx ''testpassword123'' ''$2b$salt1$testpassword123'' = Inl ValueError
        \<or> (\<exists>b. verify_password ?ctx ''testpassword123'' ''$2b$salt1$testpassword123'' = Inr b)"
    using cases [where hashed = "''$2b$salt1$testpassword123''"
                   and plain = "''testpassword123''",
                 THEN conjunct2, THEN conjunct2, THEN conjunct2] m
    by (cases "verify_password ?ctx ''testpassword123'' ''$2b$salt1$testpassword123''") auto
  moreover have "verify_password ?ctx ''testpassword123'' ''$2b$salt1$testpassword123'' \<noteq> Inr b"
    for b
    by (simp add: verify_password_def CryptContext_verify_def sample_context_def
        bcrypt_identify_def bcrypt_verify_def bcrypt_from_string_def parse_ident_def
        cost_field_def digit_of_def utf8_length_def)
  ultimately have d: "verify_password ?ctx ''testpassword123'' ''$2b$salt1$testpassword123''
                        = Inl ValueError"
    by blast
  from a b shape c m d show ?thesis by (intro conjI)
qed

text \<open>A hash string that is not a bcrypt hash makes \<open>verify_password\<close> raise: no boolean
  is returned.\<close>

theorem verify_password_malformed_hash_counterexample:
  "verify_password sample_context ''testpassword123'' ''not-a-hash'' = Inl UnknownHashError"
  by (simp add: verify_password_def CryptContext_verify_def sample_context_def
      bcrypt_identify_def)

section \<open>Properties of the user repository\<close>

text \<open>
  C10. A payload in which \<open>password\<close> is present and null is not treated as a payload
  without a password: the membership test succeeds, \<open>get_password_hash\<close> receives the null
  and raises \<open>TypeError\<close>, and \<open>update\<close> ends with that error, nothing being written. The
  schema produces such a payload when the request sets \<open>password\<close> to null, so the error is
  reached from \<open>PUT /users/me\<close>.
\<close>

theorem update_null_password_is_hashed:
  "get_password_hash ctx salt PyNone = Inl TypeError
   \<and> (update_data_of obj_in ''password'' = Some PyNone
      \<longrightarrow> CRUDUser_update ctx salt now db db_obj obj_in
            = (case get_password_hash ctx salt PyNone of
                 Inl e \<Rightarrow> (Inl e, db)
               | Inr hashed \<Rightarrow>
                   CRUDBase_update now db db_obj
                     (Dict ((update_data_of obj_in)
                        (''password'' := None, ''hashed_password'' \<mapsto> PyStr hashed))))
          \<and> CRUDUser_update ctx salt now db db_obj obj_in = (Inl TypeError, db))
   \<and> (upd_password user_in = Null
      \<longrightarrow> update_data_of (Schema user_in) ''password'' = Some PyNone
          \<and> update_user_me ctx salt now db user_in current_user = (Inl TypeError, db))
   \<and> (update_data_of obj_in ''password'' = None
      \<longrightarrow> CRUDUser_update ctx salt now db db_obj obj_in
            = CRUDBase_update now db db_obj (Dict (update_data_of obj_in)))"
proof -
  have hash: "get_password_hash ctx salt PyNone = Inl TypeError"
    by (simp add: get_password_hash_def CryptContext_hash_def)
  have dump: "update_data_of (Schema user_in) ''password'' = Some PyNone"
    if "upd_password user_in = Null"
    using that
    by (cases "upd_email user_in")
       (simp_all add: update_data_of_def model_dump_exclude_unset_def)
  have upd: "CRUDUser_update ctx salt now db db_obj oi = (Inl TypeError, db)"
    if "update_data_of oi ''password'' = Some PyNone" for oi db_obj
    using that by (simp add: CRUDUser_update_def hash)
  show ?thesis
    using hash dump upd
    by (auto simp: update_user_me_def CRUDUser_update_def)
qed

theorem update_null_password_is_hashed_witness:
  "upd_password (no_update\<lparr>upd_password := Null\<rparr>) = Null
   \<and> update_data_of (Schema (no_update\<lparr>upd_password := Null\<rparr>)) ''password'' = Some PyNone
   \<and> update_user_me sample_context ''salt3'' 300 [test_user]
        (no_update\<lparr>upd_password := Null\<rparr>) test_user = (Inl TypeError, [test_user])
   \<and> update_data_of (Schema no_update) ''password'' = None
   \<and> update_user_me sample_context ''salt3'' 300 [test_user] no_update test_user
        = CRUDBase_update 300 [test_user] (Loaded test_user)
            (Dict (update_data_of (Schema no_update)))"
proof -
  have n: "upd_password (no_update\<lparr>upd_password := Null\<rparr>) = Null" by simp
  have u: "update_data_of (Schema no_update) ''password'' = None"
    by (simp add: update_data_of_def model_dump_exclude_unset_def no_update_def)
  from update_null_password_is_hashed
         [of sample_context "''salt3''" "Schema no_update" 300 "[test_user]" "Loaded test_user"
             "no_update\<lparr>upd_password := Null\<rparr>" test_user] n u
  show ?thesis by (simp add: update_user_me_def)
qed

section \<open>Properties of the access tokens\<close>

lemma timegm_mono: "a \<le> b \<Longrightarrow> timegm a \<le> timegm b"
  by (simp add: timegm_def zdiv_mono1)

lemma loads_access_claims:
  "loads [(''exp'', JInt e), (''sub'', JStr s)]
     = [''exp'' \<mapsto> JInt e, ''sub'' \<mapsto> JStr s]"
  by (simp add: loads_def)

lemma validate_access_claims:
  "now_s \<le> e \<Longrightarrow> validate_claims now_s [''exp'' \<mapsto> JInt e, ''sub'' \<mapsto> JStr s] = Inr ()"
  by (simp add: validate_claims_def validate_iat_def validate_nbf_def validate_exp_def
      validate_absent_def validate_str_def claim_int_def bind_err_def)

lemma create_access_token_shape:
  assumes "create_access_token cfg now subject expires_delta = Inr tok"
      and "expiry cfg now expires_delta = Inr expire"
  shows "ALGORITHM cfg \<in> set HMAC_ALGORITHMS"
    and "tok = Jws (ALGORITHM cfg)
                 (Claims [(''exp'', JInt (timegm expire)), (''sub'', JStr subject)])
                 (Mac (ALGORITHM cfg) (SECRET_KEY cfg)
                    (Claims [(''exp'', JInt (timegm expire)), (''sub'', JStr subject)]))"
  using assms
  by (auto simp: create_access_token_def jwt_encode_def bind_err_def split: if_splits)

text \<open>
  C5. Decoding a token that \<open>create_access_token\<close> produced for a subject, under the same
  settings and at a time not after the token's expiry, returns a payload whose \<open>sub\<close> is that
  subject unchanged (and whose \<open>exp\<close> is the expiry in whole seconds).
\<close>

theorem access_token_round_trip:
  assumes "create_access_token cfg now subject expires_delta = Inr tok"
      and "expiry cfg now expires_delta = Inr expire"
      and "now' \<le> expire"
  shows "\<exists>payload. decode_access_token cfg now' tok = Inr (Some payload)
           \<and> payload ''sub'' = Some (JStr subject)
           \<and> payload ''exp'' = Some (JInt (timegm expire))"
proof -
  let ?members = "[(''exp'', JInt (timegm expire)), (''sub'', JStr subject)]"
  let ?payload = "[''exp'' \<mapsto> JInt (timegm expire), ''sub'' \<mapsto> JStr subject]"
  from create_access_token_shape [OF assms(1,2)]
  have alg: "ALGORITHM cfg \<in> set HMAC_ALGORITHMS"
    and tok: "tok = Jws (ALGORITHM cfg) (Claims ?members)
                      (Mac (ALGORITHM cfg) (SECRET_KEY cfg) (Claims ?members))"
    by simp_all
  from assms(3) have "timegm now' \<le> timegm expire" by (rule timegm_mono)
  then have valid: "validate_claims (timegm now') ?payload = Inr ()"
    by (rule validate_access_claims)
  have "jwt_decode now' tok (SECRET_KEY cfg) [ALGORITHM cfg] = Inr ?payload"
    unfolding tok jwt_decode_def
    using alg valid by (simp add: bind_err_def loads_access_claims)
  then have "decode_access_token cfg now' tok = Inr (Some ?payload)"
    by (simp add: decode_access_token_def)
  then show ?thesis by simp
qed

lemma expiry_default:
  "expiry default_settings 1000000 None = Inr 2592001000000"
  by (simp add: expiry_def timedelta_minutes_def datetime_add_def timedelta_min_def
      timedelta_max_def datetime_min_def datetime_max_def bind_err_def default_settings_def)

theorem access_token_round_trip_witness:
  "(\<exists>tok. create_access_token default_settings 1000000 ''test@example.com'' None = Inr tok
      \<and> (\<exists>payload. decode_access_token default_settings 2592001000000 tok = Inr (Some payload)
            \<and> payload ''sub'' = Some (JStr ''test@example.com'')
            \<and> payload ''exp'' = Some (JInt 2592001)))
   \<and> expiry default_settings 1000000 None = Inr 2592001000000"
proof -
  have le: "(2592001000000::int) \<le> 2592001000000" by simp
  have "timegm 2592001000000 = 2592001" by (simp add: timegm_def)
  with access_token_round_trip [OF create_access_token_default expiry_default le]
  show ?thesis using create_access_token_default expiry_default by simp
qed

text \<open>
  C6 (the code at a failing input). \<open>decode_access_token\<close> catches \<open>jwt.JWTError\<close> only.
  A token signed with the configured key and algorithm whose payload is
  \<open>{"exp": null, "sub": "test@example.com"}\<close> passes the signature check; the library then
  converts \<open>exp\<close> with \<open>int\<close>, which raises \<open>TypeError\<close> for null, and the exception leaves
  \<open>decode_access_token\<close>. The same token with an expiry in the past, or with a signature
  under another key, is answered with \<open>None\<close>.
\<close>

theorem decode_access_token_raises_on_null_exp:
  "decode_access_token default_settings 1000000
     (Jws ''HS256'' (Claims [(''exp'', JNull), (''sub'', JStr ''test@example.com'')])
        (Mac ''HS256'' ''your-super-secret-key-change-this-in-production''
           (Claims [(''exp'', JNull), (''sub'', JStr ''test@example.com'')])))
     = Inl TypeError
   \<and> decode_access_token default_settings 1000000
       (Jws ''HS256'' (Claims [(''exp'', JInt 0), (''sub'', JStr ''test@example.com'')])
          (Mac ''HS256'' ''your-super-secret-key-change-this-in-production''
             (Claims [(''exp'', JInt 0), (''sub'', JStr ''test@example.com'')])))
     = Inr None
   \<and> decode_access_token default_settings 1000000
       (Jws ''HS256'' (Claims [(''exp'', JNull), (''sub'', JStr ''test@example.com'')])
          (Mac ''HS256'' ''another-key''
             (Claims [(''exp'', JNull), (''sub'', JStr ''test@example.com'')])))
     = Inr None"
  by (simp add: decode_access_token_def jwt_decode_def default_settings_def
      HMAC_ALGORITHMS_def loads_def validate_claims_def validate_iat_def validate_nbf_def
      validate_exp_def claim_int_def bind_err_def timegm_def)

section \<open>Properties of the generic repository\<close>

lemma bind_err_Inr_iff: "bind_err r f = Inr y \<longleftrightarrow> (\<exists>x. r = Inr x \<and> f x = Inr y)"
  by (cases r) (simp_all add: bind_err_def)

lemma col_integer_Inr: "col_integer x = Inr n \<Longrightarrow> x = Some (PyInt n)"
  by (erule col_integer.elims) (simp_all split: if_splits)

lemma col_string_Inr: "col_string x = Inr s \<Longrightarrow> x = Some (PyStr s)"
  by (erule col_string.elims) (simp_all split: if_splits)

lemma col_string_nullable_Inr:
  "col_string_nullable x = Inr n \<Longrightarrow> x = Some (case n of None \<Rightarrow> PyNone | Some s \<Rightarrow> PyStr s)"
  by (erule col_string_nullable.elims) (auto split: if_splits)

lemma col_boolean_Inr: "col_boolean x = Inr b \<Longrightarrow> x = Some (PyBool b)"
  by (erule col_boolean.elims) simp_all

lemma col_datetime_Inr: "col_datetime x = Inr t \<Longrightarrow> x = Some (PyDateTime t)"
  by (erule col_datetime.elims) simp_all

lemma loaded_attrs_Loaded: "loaded_attrs (Loaded u) = attrs u"
  by (simp add: loaded_attrs_def attrs_def)

lemma keys_columns:
  "jsonable_encoder_keys (Loaded u) =
     [''id'', ''email'', ''hashed_password'', ''full_name'', ''is_active'', ''is_superuser'',
      ''created_at'', ''updated_at'']"
  by (simp add: jsonable_encoder_keys_def instance_dict_def)

lemma attrs_outside:
  "field \<notin> set (jsonable_encoder_keys (Loaded u)) \<Longrightarrow> attrs u field = None"
  by (simp add: attrs_def jsonable_encoder_keys_def map_of_eq_None_iff)

lemma row_of_attrs:
  assumes "row_of obj = Inr r" and "field \<in> set (jsonable_encoder_keys (Loaded r))"
  shows "attrs r field = obj field"
proof -
  from assms(1) obtain i e h n a s c m where
    cols: "col_integer (obj ''id'') = Inr i" "col_string (obj ''email'') = Inr e"
      "col_string (obj ''hashed_password'') = Inr h"
      "col_string_nullable (obj ''full_name'') = Inr n"
      "col_boolean (obj ''is_active'') = Inr a" "col_boolean (obj ''is_superuser'') = Inr s"
      "col_datetime (obj ''created_at'') = Inr c" "col_datetime (obj ''updated_at'') = Inr m"
    and r: "r = \<lparr>user_id = i, email = e, hashed_password = h, full_name = n,
                is_active = a, is_superuser = s, created_at = c, updated_at = m\<rparr>"
    unfolding row_of_def bind_err_Inr_iff by blast
  note vals = col_integer_Inr [OF cols(1)] col_string_Inr [OF cols(2)]
    col_string_Inr [OF cols(3)] col_string_nullable_Inr [OF cols(4)]
    col_boolean_Inr [OF cols(5)] col_boolean_Inr [OF cols(6)]
    col_datetime_Inr [OF cols(7)] col_datetime_Inr [OF cols(8)]
  from assms(2) show ?thesis
    unfolding keys_columns
    by (auto simp: attrs_def instance_dict_def r vals)
qed

lemma fold_setattr:
  "fold (\<lambda>field obj. case upd field of None \<Rightarrow> obj | Some v \<Rightarrow> obj(field \<mapsto> v)) fs obj c
     = (if c \<in> set fs then (case upd c of None \<Rightarrow> obj c | Some v \<Rightarrow> Some v) else obj c)"
  by (induction fs arbitrary: obj) (auto split: option.splits)


lemma commit_refresh_fresh:
  assumes "find (\<lambda>r. user_id r = user_id u) db = Some u"
      and "commit_refresh now db (Loaded u) pending = (Inr obj', db')"
  shows "(\<not> dirty (Loaded u) pending \<and> obj' = u \<and> db' = db)
         \<or> (dirty (Loaded u) pending \<and> row_of (written now (Loaded u) pending u) = Inr obj')"
  using assms
  by (auto simp: commit_refresh_def split: if_splits sum.splits)

lemma not_dirty_pending:
  assumes "\<not> dirty db_obj pending" and "field \<in> set (jsonable_encoder_keys db_obj)"
  shows "pending field = loaded_attrs db_obj field"
  using assms by (auto simp: dirty_def list_ex_iff)

lemma keys_same: "jsonable_encoder_keys (Loaded u) = jsonable_encoder_keys (Loaded u')"
  by (simp add: keys_columns)

text \<open>
  For an instance that is loaded, \<open>CRUDBase.update\<close> is the partial update that its
  docstring describes. When it returns, every field the payload does not mention keeps
  its prior value, \<open>updated_at\<close> apart, which keeps its value or becomes the time of the
  call; every field of the instance that the payload mentions has the payload's value
  afterwards (for \<open>updated_at\<close>: the payload's value, or the time of the call when the
  payload repeats the stored value and \<open>onupdate\<close> stamps the row); and with an empty
  payload the call returns the instance and the table unchanged.
\<close>

lemma update_of_loaded_instance_is_partial:
  assumes "CRUDBase_get db (user_id u) = Some u"
  shows "(\<forall>obj' db'. CRUDBase_update now db (Loaded u) obj_in = (Inr obj', db') \<longrightarrow>
            (\<forall>field. update_data_of obj_in field = None \<and> field \<noteq> ''updated_at''
                \<longrightarrow> attrs obj' field = attrs u field)
          \<and> (update_data_of obj_in ''updated_at'' = None
                \<longrightarrow> updated_at obj' = updated_at u \<or> updated_at obj' = now)
          \<and> (\<forall>field v. field \<in> set (jsonable_encoder_keys (Loaded u))
                  \<and> field \<noteq> ''updated_at'' \<and> update_data_of obj_in field = Some v
                \<longrightarrow> attrs obj' field = Some v)
          \<and> (\<forall>v. update_data_of obj_in ''updated_at'' = Some v
                \<longrightarrow> attrs obj' ''updated_at'' = Some v
                    \<or> attrs u ''updated_at'' = Some v
                      \<and> attrs obj' ''updated_at'' = Some (PyDateTime now)))
       \<and> (update_data_of obj_in = Map.empty
            \<longrightarrow> CRUDBase_update now db (Loaded u) obj_in = (Inr u, db))"
proof -
  let ?upd = "update_data_of obj_in"
  let ?keys = "jsonable_encoder_keys (Loaded u)"
  define pend where
    "pend = fold (\<lambda>field obj. case ?upd field of None \<Rightarrow> obj | Some v \<Rightarrow> obj(field \<mapsto> v))
              ?keys (attrs u)"
  have pending: "pend c = (if c \<in> set ?keys
                           then (case ?upd c of None \<Rightarrow> attrs u c | Some v \<Rightarrow> Some v)
                           else attrs u c)" for c
    unfolding pend_def by (rule fold_setattr)
  have update: "CRUDBase_update now db (Loaded u) obj_in = commit_refresh now db (Loaded u) pend"
    by (simp add: CRUDBase_update_def pend_def loaded_attrs_Loaded)
  have stamp_key: "''updated_at'' \<in> set ?keys"
    by (simp add: keys_columns)
  from assms have fresh: "find (\<lambda>r. user_id r = user_id u) db = Some u"
    by (simp add: CRUDBase_get_def)
  have returned:
    "(\<forall>field. ?upd field = None \<and> field \<noteq> ''updated_at''
         \<longrightarrow> attrs obj' field = attrs u field)
     \<and> (?upd ''updated_at'' = None
         \<longrightarrow> updated_at obj' = updated_at u \<or> updated_at obj' = now)
     \<and> (\<forall>field v. field \<in> set ?keys \<and> field \<noteq> ''updated_at'' \<and> ?upd field = Some v
         \<longrightarrow> attrs obj' field = Some v)
     \<and> (\<forall>v. ?upd ''updated_at'' = Some v
         \<longrightarrow> attrs obj' ''updated_at'' = Some v
             \<or> attrs u ''updated_at'' = Some v
               \<and> attrs obj' ''updated_at'' = Some (PyDateTime now))"
    if ok: "CRUDBase_update now db (Loaded u) obj_in = (Inr obj', db')" for obj' db'
  proof -
    from ok have "commit_refresh now db (Loaded u) pend = (Inr obj', db')"
      by (simp only: update)
    from commit_refresh_fresh [OF fresh this]
    consider (clean) "\<not> dirty (Loaded u) pend" "obj' = u"
      | (dirty) "row_of (written now (Loaded u) pend u) = Inr obj'"
      by blast
    then show ?thesis
    proof cases
      case clean
      have "attrs u field = Some v"
        if "field \<in> set ?keys" and "?upd field = Some v" for field v
        using not_dirty_pending [OF clean(1) that(1)] that
        by (simp add: pending loaded_attrs_Loaded)
      with clean(2) stamp_key show ?thesis by simp
    next
      case dirty
      have row: "attrs obj' field = written now (Loaded u) pend u field"
        if "field \<in> set ?keys" for field
        using row_of_attrs [OF dirty] that keys_same [of obj' u] by simp
      have absent: "attrs obj' field = attrs u field"
        if "?upd field = None" and "field \<noteq> ''updated_at''" for field
      proof (cases "field \<in> set ?keys")
        case True
        with that show ?thesis by (simp add: row written_def pending loaded_attrs_Loaded)
      next
        case False
        then have "field \<notin> set (jsonable_encoder_keys (Loaded obj'))"
          using keys_same [of obj' u] by simp
        with False show ?thesis by (simp add: attrs_outside)
      qed
      have stamp: "updated_at obj' = updated_at u \<or> updated_at obj' = now"
        if "?upd ''updated_at'' = None"
      proof -
        have "attrs obj' ''updated_at'' = Some (PyDateTime now)"
          using that by (simp add: row [OF stamp_key] written_def pending loaded_attrs_Loaded)
        then show ?thesis by (simp add: attrs_def instance_dict_def)
      qed
      have present: "attrs obj' field = Some v"
        if "field \<in> set ?keys" and "field \<noteq> ''updated_at''" and "?upd field = Some v"
        for field v
        using that by (auto simp: row written_def pending loaded_attrs_Loaded)
      have restamp: "attrs obj' ''updated_at'' = Some v
                     \<or> attrs u ''updated_at'' = Some v
                       \<and> attrs obj' ''updated_at'' = Some (PyDateTime now)"
        if "?upd ''updated_at'' = Some v" for v
        using that stamp_key
        by (simp add: row [OF stamp_key] written_def pending loaded_attrs_Loaded)
      from absent stamp present restamp show ?thesis by blast
    qed
  qed
  have empty: "CRUDBase_update now db (Loaded u) obj_in = (Inr u, db)"
    if "?upd = Map.empty"
  proof -
    from that have "pend c = attrs u c" for c
      by (simp add: pending)
    then have "\<not> dirty (Loaded u) pend"
      by (simp add: dirty_def list_ex_iff loaded_attrs_Loaded)
    with fresh show ?thesis
      by (simp add: update commit_refresh_def)
  qed
  from returned empty show ?thesis by blast
qed

text \<open>
  C7 (the code at a failing input). The keys that \<open>update\<close> walks are those of
  \<open>jsonable_encoder(db_obj)\<close>, the attributes held in memory, not the columns of the model.
  An instance that an earlier commit on the session has expired holds none, so the loop
  sets nothing: the call returns the stored user as it was and the payload's \<open>full_name\<close> is
  ignored, where the same call on the loaded instance writes it.
\<close>

theorem update_ignores_payload_on_expired_instance:
  "CRUDBase_get [test_user, test_superuser] 1 = Some test_user
   \<and> jsonable_encoder_keys (Expired 1) = []
   \<and> CRUDBase_update 300 [test_user, test_superuser] (Expired 1)
        (Schema (no_update\<lparr>upd_full_name := Given ''Updated Name''\<rparr>))
      = (Inr test_user, [test_user, test_superuser])
   \<and> full_name test_user = Some ''Test User''
   \<and> CRUDBase_update 300 [test_user, test_superuser] (Loaded test_user)
        (Schema (no_update\<lparr>upd_full_name := Given ''Updated Name''\<rparr>))
      = (Inr (test_user\<lparr>full_name := Some ''Updated Name'', updated_at := 300\<rparr>),
         [test_user\<lparr>full_name := Some ''Updated Name'', updated_at := 300\<rparr>, test_superuser])"
  by (simp add: CRUDBase_get_def CRUDBase_update_def update_data_of_def
      model_dump_exclude_unset_def jsonable_encoder_keys_def loaded_attrs_def instance_dict_def
      attrs_def commit_refresh_def dirty_def written_def row_of_def bind_err_def conflicts_def
      test_user_def test_superuser_def no_update_def)

section \<open>Self-update\<close>

text \<open>
  C1 (the code at a failing input). \<open>PUT /users/me\<close> takes the full \<open>UserUpdate\<close> schema,
  which carries \<open>is_active\<close> and \<open>is_superuser\<close>. An active user who is not a superuser and
  sends \<open>{"is_superuser": true}\<close> is a superuser afterwards, in the returned user and in the
  table.
\<close>

theorem self_update_grants_superuser:
  "get_current_active_user test_user = Inr test_user
   \<and> is_superuser test_user = False
   \<and> update_user_me sample_context ''salt3'' 300 [test_user, test_superuser]
        (no_update\<lparr>upd_is_superuser := Given True\<rparr>) test_user
      = (Inr (test_user\<lparr>is_superuser := True, updated_at := 300\<rparr>),
         [test_user\<lparr>is_superuser := True, updated_at := 300\<rparr>, test_superuser])"
  by (simp add: get_current_active_user_def CRUDUser_is_active_def update_user_me_def
      CRUDUser_update_def CRUDBase_update_def update_data_of_def model_dump_exclude_unset_def
      jsonable_encoder_keys_def loaded_attrs_def instance_dict_def attrs_def commit_refresh_def
      dirty_def
      written_def row_of_def bind_err_def conflicts_def test_user_def test_superuser_def
      no_update_def)

end

